theory Spec2Isabelle
  imports Main "HOL-Library.Sublist"
begin

section \<open>The publish store module (store/modules/publish.ts)\<close>

text \<open>
  The module is a Vuex store module: a state record, four mutations and the actions
  \<open>build\<close>, \<open>buildAppx\<close> and \<open>buildTeams\<close>, each of which returns a promise. The model
  runs an action to the end and returns what an observer can see of it: how the returned
  promise settled, the request that reached the network, the action dispatched, and the
  state after the commits.
\<close>

subsection \<open>JavaScript values\<close>

text \<open>
  TypeScript types are erased at run time, and the module tests its inputs for truthiness,
  so the values it handles are modelled as untyped JavaScript values. A number is held as
  the text that \<open>String(n)\<close> gives for it: the module only tests numbers for truthiness
  and converts them to text.
\<close>

datatype jsval =
    JUndefined
  | JNull
  | JBool bool
  | JNum string
  | JStr string
  | JArr "jsval list"
  | JObj "(string \<times> jsval) list"

text \<open>\<open>!v\<close> is \<open>\<not> truthy v\<close>.\<close>

fun truthy :: "jsval \<Rightarrow> bool" where
  "truthy JUndefined = False"
| "truthy JNull = False"
| "truthy (JBool b) = b"
| "truthy (JNum s) = (s \<noteq> ''0'' \<and> s \<noteq> ''NaN'')"
| "truthy (JStr s) = (s \<noteq> [])"
| "truthy (JArr xs) = True"
| "truthy (JObj kvs) = True"

definition nullish :: "jsval \<Rightarrow> bool" where
  "nullish v = (v = JUndefined \<or> v = JNull)"

text \<open>
  \<open>v.k\<close> for a value that is neither \<open>undefined\<close> nor \<open>null\<close>, and a key \<open>k\<close> that is
  not an inherited property: the module reads the keys \<open>archive\<close>, \<open>error\<close> and the six
  Teams fields only. Reading a property of \<open>undefined\<close> or \<open>null\<close> throws a TypeError,
  which \<open>member\<close> returns as \<open>None\<close>.
\<close>

fun get :: "jsval \<Rightarrow> string \<Rightarrow> jsval" where
  "get (JObj kvs) k = (case map_of kvs k of None \<Rightarrow> JUndefined | Some v \<Rightarrow> v)"
| "get v k = JUndefined"

definition member :: "jsval \<Rightarrow> string \<Rightarrow> jsval option" where
  "member v k = (if nullish v then None else Some (get v k))"

text \<open>\<open>a || b\<close>\<close>

definition js_or :: "jsval \<Rightarrow> jsval \<Rightarrow> jsval" where
  "js_or a b = (if truthy a then a else b)"

text \<open>
  The conversion to text of a template literal, \<open>`${v}`\<close>. An array is joined with
  commas, where \<open>undefined\<close> and \<open>null\<close> elements give the empty text.
\<close>

fun ToString :: "jsval \<Rightarrow> string" and join :: "jsval list \<Rightarrow> string" where
  "ToString JUndefined = ''undefined''"
| "ToString JNull = ''null''"
| "ToString (JBool b) = (if b then ''true'' else ''false'')"
| "ToString (JNum s) = s"
| "ToString (JStr s) = s"
| "ToString (JArr xs) = join xs"
| "ToString (JObj kvs) = ''[object Object]''"
| "join [] = []"
| "join [x] = (if x = JUndefined \<or> x = JNull then [] else ToString x)"
| "join (x # y # ys) =
     (if x = JUndefined \<or> x = JNull then [] else ToString x) @ '','' @ join (y # ys)"

text \<open>The method call \<open>v.toString()\<close>: a TypeError (\<open>None\<close>) on \<open>undefined\<close> and \<open>null\<close>.\<close>

definition toString :: "jsval \<Rightarrow> string option" where
  "toString v = (if nullish v then None else Some (ToString v))"

text \<open>\<open>s.includes(m)\<close>: \<open>m\<close> occurs in \<open>s\<close> as a contiguous run.\<close>

fun includes_str :: "string \<Rightarrow> string \<Rightarrow> bool" where
  "includes_str [] m = (m = [])"
| "includes_str (c # cs) m = (prefix m (c # cs) \<or> includes_str cs m)"

datatype exn = TypeError | SyntaxError

subsection \<open>Promises\<close>

text \<open>
  Each action wraps its body in \<open>new Promise(async (resolve, reject) => ...)\<close>. Calling
  \<open>reject\<close> or \<open>resolve\<close> settles a pending promise and does nothing to a settled one;
  neither call ends the executor, which runs on to its last statement. An exception that
  leaves the executor rejects the promise of the async function, which nobody holds: the
  promise of the action stays as it is.
\<close>

datatype promise = Pending | Fulfilled | Rejected jsval

definition reject :: "jsval \<Rightarrow> promise \<Rightarrow> promise" where
  "reject reason p = (case p of Pending \<Rightarrow> Rejected reason | _ \<Rightarrow> p)"

definition resolve :: "promise \<Rightarrow> promise" where
  "resolve p = (case p of Pending \<Rightarrow> Fulfilled | _ \<Rightarrow> p)"

subsection \<open>The platform registry\<close>

definition platforms_web :: string where "platforms_web = ''web''"
definition platforms_windows10 :: string where "platforms_windows10 = ''windows10''"
definition platforms_windows :: string where "platforms_windows = ''windows''"
definition platforms_ios :: string where "platforms_ios = ''ios''"
definition platforms_android :: string where "platforms_android = ''android''"
definition platforms_androidTWA :: string where "platforms_androidTWA = ''android-twa''"
definition platforms_samsung :: string where "platforms_samsung = ''samsung''"
definition platforms_msteams :: string where "platforms_msteams = ''msteams''"
definition platforms_all :: string where "platforms_all = ''All''"

subsection \<open>State and mutations\<close>

record State =
  status :: "bool option"
  archiveLink :: jsval
  appXLink :: jsval
  downloadDisabled :: bool

definition state :: State where
  "state = \<lparr>status = None, archiveLink = JNull, appXLink = JNull, downloadDisabled = False\<rparr>"

definition UPDATE_STATUS :: "State \<Rightarrow> bool \<Rightarrow> State" where
  "UPDATE_STATUS st s = st\<lparr>status := Some s\<rparr>"

definition UPDATE_ARCHIVELINK :: "State \<Rightarrow> jsval \<Rightarrow> State" where
  "UPDATE_ARCHIVELINK st url = st\<lparr>archiveLink := url\<rparr>"

definition UPDATE_APPXLINK :: "State \<Rightarrow> jsval \<Rightarrow> State" where
  "UPDATE_APPXLINK st url = st\<lparr>appXLink := url\<rparr>"

definition UPDATE_DOWNLOAD_DISABLED :: "State \<Rightarrow> bool \<Rightarrow> State" where
  "UPDATE_DOWNLOAD_DISABLED st disabled = st\<lparr>downloadDisabled := disabled\<rparr>"

subsection \<open>The surroundings of an action\<close>

text \<open>
  Modelled from the spec: \<open>RootState\<close> is declared in the store's root module, which is
  not part of the source at hand. The actions read \<open>rootState.generator.manifestId\<close>,
  \<open>rootState.generator.url\<close> and \<open>rootState.serviceworker.serviceworker\<close>; the spec gives
  the two identifiers as optional strings and \<open>url\<close> as a value tested for truthiness.
\<close>

record RootState =
  generator_manifestId :: jsval
  generator_url :: jsval
  serviceworker_serviceworker :: jsval

text \<open>
  What \<open>this.$axios.$post(url, body)\<close> does. It returns the body of the response, or
  throws an error \<open>e\<close> whose \<open>e.response\<close> holds \<open>data\<close> and \<open>statusText\<close> when the
  service answered, and is undefined when no answer came.
\<close>

record response =
  data :: jsval
  statusText :: string

datatype post_result = PostOk jsval | PostError "response option"

record request =
  url :: string
  body :: jsval

text \<open>
  An action sends at most one request and decodes at most one text, so its surroundings
  are the configured address \<open>process.env.apiUrl\<close>, what the service does with the
  one request (\<open>axios_post\<close>), and what \<open>JSON.parse\<close> does with the one text
  (\<open>JSON_parse\<close>: the decoded value, or \<open>None\<close> for a SyntaxError).
\<close>

record env =
  process_env_apiUrl :: string
  axios_post :: post_result
  JSON_parse :: "jsval option"

text \<open>Line 5.\<close>

definition apiUrl :: "env \<Rightarrow> string" where
  "apiUrl \<E> = process_env_apiUrl \<E> @ ''/manifests''"

subsection \<open>Parameters and outcomes\<close>

record teams_params =
  href :: string
  options :: "string list option"

record build_params = teams_params +
  platform :: jsval

record AppxParams =
  publisher :: jsval
  publisher_id :: jsval
  package :: jsval
  version :: jsval

record outcome =
  settled :: promise
  unhandled :: "exn option"
  posted :: "request option"
  dispatched :: "build_params option"
  store :: State

subsection \<open>build\<close>

text \<open>
  Lines 142 to 147: the platform list of the request. Only the registry's value for
  \<open>all\<close> is expanded.
\<close>

definition platformsList :: "jsval \<Rightarrow> jsval list" where
  "platformsList p =
     (if p = JStr platforms_all
      then [JStr platforms_web, JStr platforms_windows10, JStr platforms_windows,
            JStr platforms_ios, JStr platforms_android, JStr platforms_androidTWA,
            JStr platforms_samsung, JStr platforms_msteams]
      else [p])"

text \<open>
  Lines 150 to 152: the request. The body is the object literal of line 150; an absent
  \<open>params.options\<close> is the value \<open>undefined\<close> under the key \<open>parameters\<close>. The template
  literal of the address runs over a line break, so the address ends in a line feed and
  sixteen spaces.
\<close>

definition js_of_options :: "string list option \<Rightarrow> jsval" where
  "js_of_options os = (case os of None \<Rightarrow> JUndefined | Some xs \<Rightarrow> JArr (map JStr xs))"

definition build_request :: "env \<Rightarrow> RootState \<Rightarrow> build_params \<Rightarrow> request" where
  "build_request \<E> rootState params =
     \<lparr>url = apiUrl \<E> @ ''/'' @ ToString (generator_manifestId rootState)
              @ ''/build?ids='' @ ToString (serviceworker_serviceworker rootState)
              @ ''&href='' @ href params @ ''\<newline>                '',
      body = JObj [(''platforms'', JArr (platformsList (platform params))),
                   (''dirSuffix'', platform params),
                   (''parameters'', js_of_options (options params))]\<rparr>"

text \<open>
  Lines 134 to 140: the two checks. Each calls \<open>reject\<close> and goes on to the next
  statement.
\<close>

definition build_checks :: "RootState \<Rightarrow> build_params option \<Rightarrow> promise" where
  "build_checks rootState params =
     (let manifestId = generator_manifestId rootState;
          serviceworker = serviceworker_serviceworker rootState;
          p = (if \<not> truthy manifestId \<or> \<not> truthy serviceworker
               then reject (JStr ''error.manifest_required'') Pending else Pending)
      in if (case params of None \<Rightarrow> True | Some ps \<Rightarrow> \<not> truthy (platform ps))
         then reject (JStr ''error.platform_required'') p else p)"

text \<open>
  The action. Without \<open>params\<close>, line 143 throws a TypeError on \<open>params.platform\<close>.
  Otherwise the request is sent whatever the checks found. A TypeError in the \<open>try\<close>
  block (\<open>result.archive\<close> on a \<open>null\<close> result) is caught as an \<open>e\<close> without
  \<open>response\<close>, and \<open>e.response.data\<close> then throws out of the \<open>catch\<close> block, as it does
  for an error of the transport. Line 156 reads
  \<open>data ? data.error : (data || statusText)\<close>.
\<close>

definition build :: "env \<Rightarrow> RootState \<Rightarrow> State \<Rightarrow> build_params option \<Rightarrow> outcome" where
  "build \<E> rootState st params =
     (let p = build_checks rootState params in
      case params of
        None \<Rightarrow>
          \<lparr>settled = p, unhandled = Some TypeError, posted = None, dispatched = None,
           store = st\<rparr>
      | Some ps \<Rightarrow>
          (let req = build_request \<E> rootState ps;
               thrown = \<lparr>settled = p, unhandled = Some TypeError, posted = Some req,
                         dispatched = None, store = st\<rparr>
           in case axios_post \<E> of
                PostOk result \<Rightarrow>
                  (case member result ''archive'' of
                     None \<Rightarrow> thrown
                   | Some archive \<Rightarrow>
                       \<lparr>settled = resolve p, unhandled = None, posted = Some req,
                        dispatched = None, store = UPDATE_ARCHIVELINK st archive\<rparr>)
              | PostError None \<Rightarrow> thrown
              | PostError (Some r) \<Rightarrow>
                  (case (if truthy (data r) then member (data r) ''error''
                         else Some (js_or (data r) (JStr (statusText r)))) of
                     None \<Rightarrow> thrown
                   | Some errorMessage \<Rightarrow>
                       \<lparr>settled = reject errorMessage p, unhandled = None,
                        posted = Some req, dispatched = None, store = st\<rparr>)))"

subsection \<open>buildAppx\<close>

definition publisher_marker :: string where
  "publisher_marker = ''@Publisher\<newline>Package creation failed''"

definition version_marker :: string where
  "version_marker = ''@Version\<newline>Package creation failed.''"

text \<open>Lines 185 to 191: the message for an error text.\<close>

definition appx_errorMessage :: "string \<Rightarrow> string" where
  "appx_errorMessage error =
     (if includes_str error publisher_marker then ''Invalid Publisher Identity.''
      else if includes_str error version_marker then ''Invalid Version Number.''
      else ''Package building error.'')"

text \<open>Line 183: the error text; \<open>e.response.toString()\<close> is the text of a plain object.\<close>

definition appx_error :: "response \<Rightarrow> string option" where
  "appx_error r =
     (if truthy (data r)
      then (case member (data r) ''error'' of None \<Rightarrow> None | Some v \<Rightarrow> toString v)
      else Some ''[object Object]'')"

text \<open>Lines 167 to 173.\<close>

definition buildAppx_checks :: "RootState \<Rightarrow> AppxParams \<Rightarrow> promise" where
  "buildAppx_checks rootState params =
     (let manifestId = generator_manifestId rootState;
          p = (if \<not> truthy manifestId
               then reject (JStr ''error.manifest_required'') Pending else Pending)
      in if \<not> truthy (publisher params) \<or> \<not> truthy (publisher_id params)
            \<or> \<not> truthy (package params) \<or> \<not> truthy (version params)
         then reject (JStr ''error.fields_required'') p else p)"

text \<open>Lines 176 and 177.\<close>

definition buildAppx_request :: "env \<Rightarrow> RootState \<Rightarrow> AppxParams \<Rightarrow> request" where
  "buildAppx_request \<E> rootState params =
     \<lparr>url = apiUrl \<E> @ ''/'' @ ToString (generator_manifestId rootState) @ ''/appx'',
      body = JObj [(''name'', publisher params), (''publisher'', publisher_id params),
                   (''package'', package params), (''version'', version params)]\<rparr>"

definition buildAppx :: "env \<Rightarrow> RootState \<Rightarrow> State \<Rightarrow> AppxParams \<Rightarrow> outcome" where
  "buildAppx \<E> rootState st params =
     (let p = buildAppx_checks rootState params;
          req = buildAppx_request \<E> rootState params;
          thrown = \<lparr>settled = p, unhandled = Some TypeError, posted = Some req,
                    dispatched = None, store = st\<rparr>
      in case axios_post \<E> of
           PostOk result \<Rightarrow>
             (case member result ''archive'' of
                None \<Rightarrow> thrown
              | Some archive \<Rightarrow>
                  \<lparr>settled = resolve p, unhandled = None, posted = Some req,
                   dispatched = None, store = UPDATE_APPXLINK st archive\<rparr>)
         | PostError None \<Rightarrow> thrown
         | PostError (Some r) \<Rightarrow>
             (case appx_error r of
                None \<Rightarrow> thrown
              | Some error \<Rightarrow>
                  \<lparr>settled = reject (JStr (appx_errorMessage error)) p, unhandled = None,
                   posted = Some req, dispatched = None, store = st\<rparr>))"

subsection \<open>buildTeams\<close>

text \<open>
  Line 205, the argument of \<open>JSON.parse\<close> and its result. Without \<open>options\<close> the text is
  \<open>{}\<close>, which decodes to the empty object. An empty \<open>options\<close> array is truthy and its
  first element is \<open>undefined\<close>, which \<open>JSON.parse\<close> reads as the text \<open>undefined\<close>: a
  SyntaxError. Otherwise the first element is decoded.
\<close>

definition decode_options :: "env \<Rightarrow> string list option \<Rightarrow> jsval option" where
  "decode_options \<E> os =
     (case os of
        None \<Rightarrow> Some (JObj [])
      | Some [] \<Rightarrow> None
      | Some (x # xs) \<Rightarrow> JSON_parse \<E>)"

text \<open>The six names that line 205 takes out of the decoded value and line 206 tests.\<close>

definition teams_required :: "string list" where
  "teams_required = [''publisherName'', ''longDescription'', ''shortDescription'',
                     ''privacyUrl'', ''termsOfUseUrl'', ''colorImageFile'']"

text \<open>
  The action. A SyntaxError of \<open>JSON.parse\<close> and the TypeError of destructuring
  \<open>null\<close> leave the executor before \<open>resolve\<close>. The \<open>then\<close> callback, which dispatches
  \<open>build\<close>, runs only when the promise of the executor is fulfilled, and the action then
  settles as the dispatched \<open>build\<close> does.
\<close>

definition buildTeams :: "env \<Rightarrow> RootState \<Rightarrow> State \<Rightarrow> teams_params \<Rightarrow> outcome" where
  "buildTeams \<E> rootState st params =
     (let manifestId = generator_manifestId rootState;
          p = (if \<not> truthy manifestId
               then reject (JStr ''error.manifest_required'') Pending else Pending)
      in case decode_options \<E> (options params) of
           None \<Rightarrow>
             \<lparr>settled = p, unhandled = Some SyntaxError, posted = None, dispatched = None,
              store = st\<rparr>
         | Some decoded \<Rightarrow>
             if nullish decoded
             then \<lparr>settled = p, unhandled = Some TypeError, posted = None,
                   dispatched = None, store = st\<rparr>
             else
               (let publisherName = get decoded ''publisherName'';
                    longDescription = get decoded ''longDescription'';
                    shortDescription = get decoded ''shortDescription'';
                    privacyUrl = get decoded ''privacyUrl'';
                    termsOfUseUrl = get decoded ''termsOfUseUrl'';
                    colorImageFile = get decoded ''colorImageFile'';
                    p = (if \<not> truthy publisherName \<or> \<not> truthy longDescription
                            \<or> \<not> truthy shortDescription \<or> \<not> truthy privacyUrl
                            \<or> \<not> truthy termsOfUseUrl \<or> \<not> truthy colorImageFile
                         then reject (JStr ''error.fields_required'') p else p)
                in case resolve p of
                     Fulfilled \<Rightarrow>
                       (let payload = \<lparr>href = href params, options = options params,
                                       platform = JStr platforms_msteams\<rparr>
                        in (build \<E> rootState st (Some payload))\<lparr>dispatched := Some payload\<rparr>)
                   | q \<Rightarrow>
                       \<lparr>settled = q, unhandled = None, posted = None, dispatched = None,
                        store = st\<rparr>))"

subsection \<open>The other actions\<close>

definition updateStatus :: "RootState \<Rightarrow> State \<Rightarrow> State" where
  "updateStatus rootState st = UPDATE_STATUS st (truthy (generator_url rootState))"

definition disableDownloadButton :: "State \<Rightarrow> State" where
  "disableDownloadButton st = UPDATE_DOWNLOAD_DISABLED st True"

definition enableDownloadButton :: "State \<Rightarrow> State" where
  "enableDownloadButton st = UPDATE_DOWNLOAD_DISABLED st False"

section \<open>Properties\<close>

subsection \<open>Auxiliary facts\<close>

lemmas platforms_defs =
  platforms_web_def platforms_windows10_def platforms_windows_def platforms_ios_def
  platforms_android_def platforms_androidTWA_def platforms_samsung_def
  platforms_msteams_def platforms_all_def

lemma includes_str_sublist: "includes_str s m = sublist m s"
  by (induction s) (auto simp: sublist_Cons_right)

lemma reject_simps [simp]:
  "reject r Pending = Rejected r"
  "reject r (Rejected r') = Rejected r'"
  "reject r Fulfilled = Fulfilled"
  by (simp_all add: reject_def)

lemma resolve_simps [simp]:
  "resolve Pending = Fulfilled"
  "resolve (Rejected r) = Rejected r"
  "resolve Fulfilled = Fulfilled"
  by (simp_all add: resolve_def)

text \<open>The first rejection stands: the checks of \<open>build\<close> settle the promise as follows.\<close>

lemma build_checks_cases:
  "build_checks rootState (Some ps) =
     (if \<not> truthy (generator_manifestId rootState) \<or> \<not> truthy (serviceworker_serviceworker rootState)
      then Rejected (JStr ''error.manifest_required'')
      else if \<not> truthy (platform ps) then Rejected (JStr ''error.platform_required'')
      else Pending)"
  by (simp add: build_checks_def Let_def)

text \<open>A rejection by the checks stands whatever the service answers.\<close>

lemma build_failed_check_stands:
  "build_checks rootState params = Rejected x \<Longrightarrow>
   settled (build \<E> rootState st params) = Rejected x"
  by (simp add: build_def Let_def split: option.split post_result.split)

text \<open>Both actions send their request on every path, whatever the checks found.\<close>

lemma build_posted:
  "posted (build \<E> rootState st (Some ps)) = Some (build_request \<E> rootState ps)"
  by (simp add: build_def Let_def split: post_result.split option.split)

lemma buildAppx_posted:
  "posted (buildAppx \<E> rootState st params) = Some (buildAppx_request \<E> rootState params)"
  by (simp add: buildAppx_def Let_def split: post_result.split option.split)

text \<open>
  The message of a failed \<open>build\<close>: the \<open>error\<close> field of a truthy body, else the status
  text. The body itself is never the message.
\<close>

lemma build_errorMessage:
  "axios_post \<E> = PostError (Some r) \<Longrightarrow> build_checks rootState (Some ps) = Pending \<Longrightarrow>
   settled (build \<E> rootState st (Some ps)) =
     Rejected (if truthy (data r) then get (data r) ''error'' else JStr (statusText r))"
  by (auto simp add: build_def Let_def member_def nullish_def js_or_def)

lemma teams_required_all:
  "(\<forall>k \<in> set teams_required. truthy (get d k)) \<longleftrightarrow>
     truthy (get d ''publisherName'') \<and> truthy (get d ''longDescription'')
     \<and> truthy (get d ''shortDescription'') \<and> truthy (get d ''privacyUrl'')
     \<and> truthy (get d ''termsOfUseUrl'') \<and> truthy (get d ''colorImageFile'')"
  by (simp add: teams_required_def)

lemmas action_defs =
  build_def build_checks_def build_request_def platformsList_def js_of_options_def
  buildAppx_def buildAppx_checks_def buildAppx_request_def appx_error_def
  appx_errorMessage_def publisher_marker_def version_marker_def
  buildTeams_def decode_options_def
  apiUrl_def member_def nullish_def toString_def js_or_def
  UPDATE_ARCHIVELINK_def UPDATE_APPXLINK_def state_def Let_def

subsection \<open>C1: the checks of build and the network\<close>

text \<open>
  C1 says that a \<open>build\<close> whose manifest or service-worker identifier is absent signals
  \<open>error.manifest_required\<close> and never reaches the network. The action does reject with
  that reason, but \<open>reject\<close> does not end the executor: with a manifest identifier and no
  service worker, the request is still sent, to \<open>ids=null\<close>.
\<close>

theorem build_rejected_yet_posted:
  "settled (build \<lparr>process_env_apiUrl = ''https://api'',
                   axios_post = PostError (Some \<lparr>data = JObj [(''error'', JStr ''no such service worker'')],
                                                 statusText = ''Not Found''\<rparr>),
                   JSON_parse = None\<rparr>
                  \<lparr>generator_manifestId = JStr ''m1'', generator_url = JStr ''https://a.b'',
                   serviceworker_serviceworker = JNull\<rparr>
                  state
                  (Some \<lparr>href = ''https://a.b'', options = None, platform = JStr ''web''\<rparr>))
     = Rejected (JStr ''error.manifest_required'')
   \<and> posted (build \<lparr>process_env_apiUrl = ''https://api'',
                   axios_post = PostError (Some \<lparr>data = JObj [(''error'', JStr ''no such service worker'')],
                                                 statusText = ''Not Found''\<rparr>),
                   JSON_parse = None\<rparr>
                  \<lparr>generator_manifestId = JStr ''m1'', generator_url = JStr ''https://a.b'',
                   serviceworker_serviceworker = JNull\<rparr>
                  state
                  (Some \<lparr>href = ''https://a.b'', options = None, platform = JStr ''web''\<rparr>))
     = Some \<lparr>url = ''https://api/manifests/m1/build?ids=null&href=https://a.b\<newline>                '',
             body = JObj [(''platforms'', JArr [JStr ''web'']), (''dirSuffix'', JStr ''web''),
                          (''parameters'', JUndefined)]\<rparr>"
  by (simp add: action_defs platforms_defs)

theorem build_rejected_yet_posted_witness:
  "posted (build \<lparr>process_env_apiUrl = ''https://api'',
                   axios_post = PostError (Some \<lparr>data = JObj [(''error'', JStr ''no such service worker'')],
                                                 statusText = ''Not Found''\<rparr>),
                   JSON_parse = None\<rparr>
                  \<lparr>generator_manifestId = JStr ''m1'', generator_url = JStr ''https://a.b'',
                   serviceworker_serviceworker = JNull\<rparr>
                  state
                  (Some \<lparr>href = ''https://a.b'', options = None, platform = JStr ''web''\<rparr>))
     \<noteq> None"
  using build_rejected_yet_posted by simp

subsection \<open>C2: a failed action and the state\<close>

text \<open>
  C2 says that a \<open>build\<close> or \<open>buildAppx\<close> that fails leaves the state as it was. A failed
  check rejects the promise and the request is sent all the same; when the service then
  answers with an archive, the link is committed although the action has failed. Here
  \<open>build\<close> runs without a service worker, and \<open>buildAppx\<close> with an empty version.
\<close>

theorem failed_action_writes_link:
  "build \<lparr>process_env_apiUrl = ''https://api'',
          axios_post = PostOk (JObj [(''archive'', JStr ''https://x/y.zip'')]),
          JSON_parse = None\<rparr>
         \<lparr>generator_manifestId = JStr ''m1'', generator_url = JStr ''https://a.b'',
          serviceworker_serviceworker = JNull\<rparr>
         state
         (Some \<lparr>href = ''https://a.b'', options = None, platform = JStr ''web''\<rparr>)
     = \<lparr>settled = Rejected (JStr ''error.manifest_required''), unhandled = None,
        posted = Some \<lparr>url = ''https://api/manifests/m1/build?ids=null&href=https://a.b\<newline>                '',
                        body = JObj [(''platforms'', JArr [JStr ''web'']),
                                     (''dirSuffix'', JStr ''web''),
                                     (''parameters'', JUndefined)]\<rparr>,
        dispatched = None,
        store = \<lparr>status = None, archiveLink = JStr ''https://x/y.zip'', appXLink = JNull,
                 downloadDisabled = False\<rparr>\<rparr>
   \<and> buildAppx \<lparr>process_env_apiUrl = ''https://api'',
               axios_post = PostOk (JObj [(''archive'', JStr ''https://x/y.appx'')]),
               JSON_parse = None\<rparr>
              \<lparr>generator_manifestId = JStr ''m1'', generator_url = JStr ''https://a.b'',
               serviceworker_serviceworker = JStr ''sw1''\<rparr>
              state
              \<lparr>publisher = JStr ''Contoso'', publisher_id = JStr ''CN=123'',
               package = JStr ''contoso.app'', version = JStr ''''\<rparr>
     = \<lparr>settled = Rejected (JStr ''error.fields_required''), unhandled = None,
        posted = Some \<lparr>url = ''https://api/manifests/m1/appx'',
                        body = JObj [(''name'', JStr ''Contoso''), (''publisher'', JStr ''CN=123''),
                                     (''package'', JStr ''contoso.app''),
                                     (''version'', JStr '''')]\<rparr>,
        dispatched = None,
        store = \<lparr>status = None, archiveLink = JNull, appXLink = JStr ''https://x/y.appx'',
                 downloadDisabled = False\<rparr>\<rparr>"
  by (simp add: action_defs platforms_defs)

theorem failed_action_writes_link_witness:
  "store (build \<lparr>process_env_apiUrl = ''https://api'',
                 axios_post = PostOk (JObj [(''archive'', JStr ''https://x/y.zip'')]),
                 JSON_parse = None\<rparr>
                \<lparr>generator_manifestId = JStr ''m1'', generator_url = JStr ''https://a.b'',
                 serviceworker_serviceworker = JNull\<rparr>
                state
                (Some \<lparr>href = ''https://a.b'', options = None, platform = JStr ''web''\<rparr>))
     \<noteq> state"
  using failed_action_writes_link by (simp add: state_def)

subsection \<open>C3: the platform list for all platforms\<close>

text \<open>
  C3: when \<open>build\<close> is called with the registry's value for \<open>all\<close>, the request that is
  sent carries the list web, windows10, windows, ios, android, androidTWA, samsung,
  msteams in this order, and the value for \<open>all\<close> is not in it.
\<close>

theorem build_all_platforms:
  "\<exists>r. posted (build \<E> rootState st (Some (ps\<lparr>platform := JStr platforms_all\<rparr>))) = Some r
     \<and> get (body r) ''platforms'' =
         JArr (map JStr [platforms_web, platforms_windows10, platforms_windows, platforms_ios,
                         platforms_android, platforms_androidTWA, platforms_samsung,
                         platforms_msteams])
     \<and> platforms_all \<notin> set [platforms_web, platforms_windows10, platforms_windows,
                             platforms_ios, platforms_android, platforms_androidTWA,
                             platforms_samsung, platforms_msteams]"
  by (simp add: build_posted build_request_def platformsList_def) (simp add: platforms_defs)

theorem build_all_platforms_witness:
  "\<exists>r. posted (build \<lparr>process_env_apiUrl = ''https://api'',
                       axios_post = PostOk (JObj [(''archive'', JStr ''https://x/y.zip'')]),
                       JSON_parse = None\<rparr>
                      \<lparr>generator_manifestId = JStr ''m1'', generator_url = JStr ''https://a.b'',
                       serviceworker_serviceworker = JStr ''sw1''\<rparr>
                      state
                      (Some \<lparr>href = ''https://a.b'', options = None, platform = JStr ''All''\<rparr>))
          = Some r
     \<and> get (body r) ''platforms'' =
         JArr [JStr ''web'', JStr ''windows10'', JStr ''windows'', JStr ''ios'', JStr ''android'',
               JStr ''android-twa'', JStr ''samsung'', JStr ''msteams'']"
  using build_all_platforms
    [of "\<lparr>process_env_apiUrl = ''https://api'',
          axios_post = PostOk (JObj [(''archive'', JStr ''https://x/y.zip'')]),
          JSON_parse = None\<rparr>"
        "\<lparr>generator_manifestId = JStr ''m1'', generator_url = JStr ''https://a.b'',
          serviceworker_serviceworker = JStr ''sw1''\<rparr>"
        state
        "\<lparr>href = ''https://a.b'', options = None, platform = JStr ''All''\<rparr>"]
  by (simp add: platforms_defs)

subsection \<open>C4: the fields of the appx request\<close>

text \<open>
  C4: the body that \<open>buildAppx\<close> sends has the fields name, publisher, package and
  version; \<open>name\<close> holds the caller's \<open>publisher\<close>, \<open>publisher\<close> holds the caller's
  \<open>publisher_id\<close>, and package and version are passed on as they are. Every call sends
  the request.
\<close>

theorem buildAppx_wire_fields:
  "\<exists>r kvs. posted (buildAppx \<E> rootState st params) = Some r
     \<and> body r = JObj kvs
     \<and> map fst kvs = [''name'', ''publisher'', ''package'', ''version'']
     \<and> get (body r) ''name'' = publisher params
     \<and> get (body r) ''publisher'' = publisher_id params
     \<and> get (body r) ''package'' = package params
     \<and> get (body r) ''version'' = version params"
  by (simp add: buildAppx_posted buildAppx_request_def)

theorem buildAppx_wire_fields_witness:
  "\<exists>r. posted (buildAppx \<lparr>process_env_apiUrl = ''https://api'',
                          axios_post = PostOk (JObj [(''archive'', JStr ''https://x/y.appx'')]),
                          JSON_parse = None\<rparr>
                         \<lparr>generator_manifestId = JStr ''m1'', generator_url = JStr ''https://a.b'',
                          serviceworker_serviceworker = JStr ''sw1''\<rparr>
                         state
                         \<lparr>publisher = JStr ''Contoso'', publisher_id = JStr ''CN=123'',
                          package = JStr ''contoso.app'', version = JStr ''1.0.0.0''\<rparr>)
          = Some r
     \<and> get (body r) ''name'' = JStr ''Contoso''
     \<and> get (body r) ''publisher'' = JStr ''CN=123''
     \<and> get (body r) ''package'' = JStr ''contoso.app''
     \<and> get (body r) ''version'' = JStr ''1.0.0.0''"
  using buildAppx_wire_fields
    [of "\<lparr>process_env_apiUrl = ''https://api'',
          axios_post = PostOk (JObj [(''archive'', JStr ''https://x/y.appx'')]),
          JSON_parse = None\<rparr>"
        "\<lparr>generator_manifestId = JStr ''m1'', generator_url = JStr ''https://a.b'',
          serviceworker_serviceworker = JStr ''sw1''\<rparr>"
        state
        "\<lparr>publisher = JStr ''Contoso'', publisher_id = JStr ''CN=123'',
          package = JStr ''contoso.app'', version = JStr ''1.0.0.0''\<rparr>"]
  by auto

subsection \<open>C5: the message of a failed buildAppx\<close>

text \<open>
  C5: for every error text, the message is \<open>Invalid Publisher Identity.\<close> when the text
  contains the publisher marker; otherwise \<open>Invalid Version Number.\<close> when it contains the
  version marker; otherwise \<open>Package building error.\<close>. A \<open>buildAppx\<close> that passed its
  checks and whose request failed with that text rejects with this message.
\<close>

theorem appx_error_classification:
  "appx_errorMessage t =
     (if sublist publisher_marker t then ''Invalid Publisher Identity.''
      else if sublist version_marker t then ''Invalid Version Number.''
      else ''Package building error.'')
   \<and> (axios_post \<E> = PostError (Some r) \<longrightarrow> appx_error r = Some t \<longrightarrow>
        buildAppx_checks rootState params = Pending \<longrightarrow>
        settled (buildAppx \<E> rootState st params) = Rejected (JStr (appx_errorMessage t)))"
proof (intro conjI impI)
  show "appx_errorMessage t =
          (if sublist publisher_marker t then ''Invalid Publisher Identity.''
           else if sublist version_marker t then ''Invalid Version Number.''
           else ''Package building error.'')"
    by (simp add: appx_errorMessage_def includes_str_sublist)
next
  assume failed: "axios_post \<E> = PostError (Some r)"
    and raw: "appx_error r = Some t"
    and passed: "buildAppx_checks rootState params = Pending"
  then show "settled (buildAppx \<E> rootState st params) = Rejected (JStr (appx_errorMessage t))"
    by (simp add: buildAppx_def Let_def)
qed

theorem appx_error_classification_witness:
  "appx_errorMessage ''@Version\<newline>Package creation failed. @Publisher\<newline>Package creation failed''
     = ''Invalid Publisher Identity.''
   \<and> appx_errorMessage ''Error: @Version\<newline>Package creation failed.''
     = ''Invalid Version Number.''
   \<and> appx_errorMessage ''Error: out of disk space'' = ''Package building error.''
   \<and> settled (buildAppx \<lparr>process_env_apiUrl = ''https://api'',
                        axios_post = PostError (Some
                          \<lparr>data = JObj [(''error'', JStr ''Error: @Version\<newline>Package creation failed.'')],
                           statusText = ''Internal Server Error''\<rparr>),
                        JSON_parse = None\<rparr>
                       \<lparr>generator_manifestId = JStr ''m1'', generator_url = JStr ''https://a.b'',
                        serviceworker_serviceworker = JStr ''sw1''\<rparr>
                       state
                       \<lparr>publisher = JStr ''Contoso'', publisher_id = JStr ''CN=123'',
                        package = JStr ''contoso.app'', version = JStr ''1.0''\<rparr>)
     = Rejected (JStr ''Invalid Version Number.'')"
  using
    appx_error_classification
      [of "''@Version\<newline>Package creation failed. @Publisher\<newline>Package creation failed''"]
    appx_error_classification
      [of "''Error: out of disk space''"]
    appx_error_classification
      [of "''Error: @Version\<newline>Package creation failed.''"
          "\<lparr>process_env_apiUrl = ''https://api'',
            axios_post = PostError (Some
              \<lparr>data = JObj [(''error'', JStr ''Error: @Version\<newline>Package creation failed.'')],
               statusText = ''Internal Server Error''\<rparr>),
            JSON_parse = None\<rparr>"
          "\<lparr>data = JObj [(''error'', JStr ''Error: @Version\<newline>Package creation failed.'')],
            statusText = ''Internal Server Error''\<rparr>"
          "\<lparr>generator_manifestId = JStr ''m1'', generator_url = JStr ''https://a.b'',
            serviceworker_serviceworker = JStr ''sw1''\<rparr>"
          "\<lparr>publisher = JStr ''Contoso'', publisher_id = JStr ''CN=123'',
            package = JStr ''contoso.app'', version = JStr ''1.0''\<rparr>"
          state]
  by (simp add: action_defs)

subsection \<open>C6: the checks of buildTeams\<close>

text \<open>
  C6 says that every \<open>buildTeams\<close> whose decoded options lack a required field signals
  \<open>error.fields_required\<close>, and that one with all required fields delegates to \<open>build\<close>.
  The check of the manifest identifier comes first and its rejection stands: without a
  manifest identifier the action rejects with \<open>error.manifest_required\<close>, whether the
  fields are missing (first input below: no options) or all present (second input), and
  \<open>build\<close> is not dispatched.
\<close>

theorem buildTeams_without_manifest_counterexample:
  "settled (buildTeams \<lparr>process_env_apiUrl = ''https://api'',
                        axios_post = PostOk (JObj [(''archive'', JStr ''https://x/y.zip'')]),
                        JSON_parse = None\<rparr>
                       \<lparr>generator_manifestId = JNull, generator_url = JStr ''https://a.b'',
                        serviceworker_serviceworker = JStr ''sw1''\<rparr>
                       state
                       \<lparr>href = ''https://a.b'', options = None\<rparr>)
     \<noteq> Rejected (JStr ''error.fields_required'')
   \<and> buildTeams \<lparr>process_env_apiUrl = ''https://api'',
                 axios_post = PostOk (JObj [(''archive'', JStr ''https://x/y.zip'')]),
                 JSON_parse = None\<rparr>
                \<lparr>generator_manifestId = JNull, generator_url = JStr ''https://a.b'',
                 serviceworker_serviceworker = JStr ''sw1''\<rparr>
                state
                \<lparr>href = ''https://a.b'', options = None\<rparr>
     = \<lparr>settled = Rejected (JStr ''error.manifest_required''), unhandled = None,
        posted = None, dispatched = None, store = state\<rparr>
   \<and> buildTeams \<lparr>process_env_apiUrl = ''https://api'',
                 axios_post = PostOk (JObj [(''archive'', JStr ''https://x/y.zip'')]),
                 JSON_parse = Some (JObj [(''publisherName'', JStr ''Contoso''),
                                          (''shortDescription'', JStr ''s''),
                                          (''longDescription'', JStr ''l''),
                                          (''privacyUrl'', JStr ''https://a.b/p''),
                                          (''termsOfUseUrl'', JStr ''https://a.b/t''),
                                          (''colorImageFile'', JObj [])])\<rparr>
                \<lparr>generator_manifestId = JNull, generator_url = JStr ''https://a.b'',
                 serviceworker_serviceworker = JStr ''sw1''\<rparr>
                state
                \<lparr>href = ''https://a.b'',
                 options = Some [''{\"publisherName\":\"Contoso\",\"shortDescription\":\"s\",\"longDescription\":\"l\",\"privacyUrl\":\"https://a.b/p\",\"termsOfUseUrl\":\"https://a.b/t\",\"colorImageFile\":{}}'']\<rparr>
     = \<lparr>settled = Rejected (JStr ''error.manifest_required''), unhandled = None,
        posted = None, dispatched = None, store = state\<rparr>"
  by (simp add: buildTeams_def decode_options_def nullish_def)

text \<open>
  C6 as amended. Without a manifest identifier, \<open>buildTeams\<close> rejects with
  \<open>error.manifest_required\<close> and does not dispatch \<open>build\<close>. With one, and options that
  decode to a value other than \<open>null\<close> (no options decode to the empty object): when one
  of the five required Teams fields or the colour image is missing or falsy, it rejects
  with \<open>error.fields_required\<close>, dispatches nothing, sends nothing and leaves the state;
  when all six are there, it dispatches \<open>build\<close> with the platform msteams and the \<open>href\<close>
  and \<open>options\<close> it was given, and ends as that \<open>build\<close> ends.
\<close>

theorem buildTeams_checks_then_delegates:
  "(\<not> truthy (generator_manifestId rootState) \<longrightarrow>
      settled (buildTeams \<E> rootState st params) = Rejected (JStr ''error.manifest_required'')
      \<and> dispatched (buildTeams \<E> rootState st params) = None
      \<and> posted (buildTeams \<E> rootState st params) = None
      \<and> store (buildTeams \<E> rootState st params) = st)
   \<and> (truthy (generator_manifestId rootState) \<longrightarrow>
        decode_options \<E> (options params) = Some d \<longrightarrow> \<not> nullish d \<longrightarrow>
        (\<exists>k \<in> set teams_required. \<not> truthy (get d k)) \<longrightarrow>
          buildTeams \<E> rootState st params =
            \<lparr>settled = Rejected (JStr ''error.fields_required''), unhandled = None,
             posted = None, dispatched = None, store = st\<rparr>)
   \<and> (truthy (generator_manifestId rootState) \<longrightarrow>
        decode_options \<E> (options params) = Some d \<longrightarrow> \<not> nullish d \<longrightarrow>
        (\<forall>k \<in> set teams_required. truthy (get d k)) \<longrightarrow>
          buildTeams \<E> rootState st params =
            (build \<E> rootState st
               (Some \<lparr>href = href params, options = options params,
                      platform = JStr platforms_msteams\<rparr>))
            \<lparr>dispatched := Some \<lparr>href = href params, options = options params,
                                 platform = JStr platforms_msteams\<rparr>\<rparr>)"
proof (intro conjI impI)
  assume absent: "\<not> truthy (generator_manifestId rootState)"
  let ?out = "buildTeams \<E> rootState st params"
  from absent show "settled ?out = Rejected (JStr ''error.manifest_required'')"
    by (simp add: buildTeams_def Let_def split: option.split)
  from absent show "dispatched ?out = None"
    by (simp add: buildTeams_def Let_def split: option.split)
  from absent show "posted ?out = None"
    by (simp add: buildTeams_def Let_def split: option.split)
  from absent show "store ?out = st"
    by (simp add: buildTeams_def Let_def split: option.split)
next
  assume present: "truthy (generator_manifestId rootState)"
    and decoded: "decode_options \<E> (options params) = Some d" "\<not> nullish d"
    and lacking: "\<exists>k \<in> set teams_required. \<not> truthy (get d k)"
  from lacking have "\<not> (\<forall>k \<in> set teams_required. truthy (get d k))"
    by blast
  then have "\<not> truthy (get d ''publisherName'') \<or> \<not> truthy (get d ''longDescription'')
      \<or> \<not> truthy (get d ''shortDescription'') \<or> \<not> truthy (get d ''privacyUrl'')
      \<or> \<not> truthy (get d ''termsOfUseUrl'') \<or> \<not> truthy (get d ''colorImageFile'')"
    unfolding teams_required_all by blast
  with present decoded
  show "buildTeams \<E> rootState st params =
          \<lparr>settled = Rejected (JStr ''error.fields_required''), unhandled = None,
           posted = None, dispatched = None, store = st\<rparr>"
    by (simp add: buildTeams_def Let_def)
next
  assume present: "truthy (generator_manifestId rootState)"
    and decoded: "decode_options \<E> (options params) = Some d" "\<not> nullish d"
    and complete: "\<forall>k \<in> set teams_required. truthy (get d k)"
  from complete have "truthy (get d ''publisherName'') \<and> truthy (get d ''longDescription'')
      \<and> truthy (get d ''shortDescription'') \<and> truthy (get d ''privacyUrl'')
      \<and> truthy (get d ''termsOfUseUrl'') \<and> truthy (get d ''colorImageFile'')"
    unfolding teams_required_all .
  with present decoded
  show "buildTeams \<E> rootState st params =
          (build \<E> rootState st
             (Some \<lparr>href = href params, options = options params,
                    platform = JStr platforms_msteams\<rparr>))
          \<lparr>dispatched := Some \<lparr>href = href params, options = options params,
                               platform = JStr platforms_msteams\<rparr>\<rparr>"
    by (simp add: buildTeams_def Let_def)
qed

theorem buildTeams_checks_then_delegates_witness:
  "settled (buildTeams \<lparr>process_env_apiUrl = ''https://api'',
                        axios_post = PostOk (JObj [(''archive'', JStr ''https://x/y.zip'')]),
                        JSON_parse = None\<rparr>
                       \<lparr>generator_manifestId = JStr '''', generator_url = JStr ''https://a.b'',
                        serviceworker_serviceworker = JStr ''sw1''\<rparr>
                       state
                       \<lparr>href = ''https://a.b'', options = None\<rparr>)
     = Rejected (JStr ''error.manifest_required'')
   \<and> buildTeams \<lparr>process_env_apiUrl = ''https://api'',
                 axios_post = PostOk (JObj [(''archive'', JStr ''https://x/y.zip'')]),
                 JSON_parse = Some (JObj [(''publisherName'', JStr ''Contoso''),
                                          (''shortDescription'', JStr ''s''),
                                          (''longDescription'', JStr ''l''),
                                          (''privacyUrl'', JStr ''https://a.b/p''),
                                          (''colorImageFile'', JObj [])])\<rparr>
                \<lparr>generator_manifestId = JStr ''m1'', generator_url = JStr ''https://a.b'',
                 serviceworker_serviceworker = JStr ''sw1''\<rparr>
                state
                \<lparr>href = ''https://a.b'',
                 options = Some [''{\"publisherName\":\"Contoso\",\"shortDescription\":\"s\",\"longDescription\":\"l\",\"privacyUrl\":\"https://a.b/p\",\"colorImageFile\":{}}'']\<rparr>
     = \<lparr>settled = Rejected (JStr ''error.fields_required''), unhandled = None,
        posted = None, dispatched = None, store = state\<rparr>
   \<and> buildTeams \<lparr>process_env_apiUrl = ''https://api'',
                 axios_post = PostOk (JObj [(''archive'', JStr ''https://x/y.zip'')]),
                 JSON_parse = None\<rparr>
                \<lparr>generator_manifestId = JStr ''m1'', generator_url = JStr ''https://a.b'',
                 serviceworker_serviceworker = JStr ''sw1''\<rparr>
                state
                \<lparr>href = ''https://a.b'', options = None\<rparr>
     = \<lparr>settled = Rejected (JStr ''error.fields_required''), unhandled = None,
        posted = None, dispatched = None, store = state\<rparr>
   \<and> buildTeams \<lparr>process_env_apiUrl = ''https://api'',
                 axios_post = PostOk (JObj [(''archive'', JStr ''https://x/y.zip'')]),
                 JSON_parse = Some (JObj [(''publisherName'', JStr ''Contoso''),
                                          (''shortDescription'', JStr ''s''),
                                          (''longDescription'', JStr ''l''),
                                          (''privacyUrl'', JStr ''https://a.b/p''),
                                          (''termsOfUseUrl'', JStr ''https://a.b/t''),
                                          (''colorImageFile'', JObj [])])\<rparr>
                \<lparr>generator_manifestId = JStr ''m1'', generator_url = JStr ''https://a.b'',
                 serviceworker_serviceworker = JStr ''sw1''\<rparr>
                state
                \<lparr>href = ''https://a.b'',
                 options = Some [''{\"publisherName\":\"Contoso\",\"shortDescription\":\"s\",\"longDescription\":\"l\",\"privacyUrl\":\"https://a.b/p\",\"termsOfUseUrl\":\"https://a.b/t\",\"colorImageFile\":{}}'']\<rparr>
     = \<lparr>settled = Fulfilled, unhandled = None,
        posted = Some \<lparr>url = ''https://api/manifests/m1/build?ids=sw1&href=https://a.b\<newline>                '',
                        body = JObj [(''platforms'', JArr [JStr ''msteams'']),
                                     (''dirSuffix'', JStr ''msteams''),
                                     (''parameters'', JArr [JStr ''{\"publisherName\":\"Contoso\",\"shortDescription\":\"s\",\"longDescription\":\"l\",\"privacyUrl\":\"https://a.b/p\",\"termsOfUseUrl\":\"https://a.b/t\",\"colorImageFile\":{}}''])]\<rparr>,
        dispatched = Some \<lparr>href = ''https://a.b'',
                            options = Some [''{\"publisherName\":\"Contoso\",\"shortDescription\":\"s\",\"longDescription\":\"l\",\"privacyUrl\":\"https://a.b/p\",\"termsOfUseUrl\":\"https://a.b/t\",\"colorImageFile\":{}}''],
                            platform = JStr ''msteams''\<rparr>,
        store = \<lparr>status = None, archiveLink = JStr ''https://x/y.zip'', appXLink = JNull,
                 downloadDisabled = False\<rparr>\<rparr>"
  using
    buildTeams_checks_then_delegates
      [of "\<lparr>generator_manifestId = JStr '''', generator_url = JStr ''https://a.b'',
            serviceworker_serviceworker = JStr ''sw1''\<rparr>"
          "\<lparr>process_env_apiUrl = ''https://api'',
            axios_post = PostOk (JObj [(''archive'', JStr ''https://x/y.zip'')]),
            JSON_parse = None\<rparr>"
          state
          "\<lparr>href = ''https://a.b'', options = None\<rparr>"
          "JObj []"]
    buildTeams_checks_then_delegates
      [of "\<lparr>generator_manifestId = JStr ''m1'', generator_url = JStr ''https://a.b'',
            serviceworker_serviceworker = JStr ''sw1''\<rparr>"
          "\<lparr>process_env_apiUrl = ''https://api'',
            axios_post = PostOk (JObj [(''archive'', JStr ''https://x/y.zip'')]),
            JSON_parse = Some (JObj [(''publisherName'', JStr ''Contoso''),
                                     (''shortDescription'', JStr ''s''),
                                     (''longDescription'', JStr ''l''),
                                     (''privacyUrl'', JStr ''https://a.b/p''),
                                     (''colorImageFile'', JObj [])])\<rparr>"
          state
          "\<lparr>href = ''https://a.b'',
            options = Some [''{\"publisherName\":\"Contoso\",\"shortDescription\":\"s\",\"longDescription\":\"l\",\"privacyUrl\":\"https://a.b/p\",\"colorImageFile\":{}}'']\<rparr>"
          "JObj [(''publisherName'', JStr ''Contoso''),
                 (''shortDescription'', JStr ''s''),
                 (''longDescription'', JStr ''l''),
                 (''privacyUrl'', JStr ''https://a.b/p''),
                 (''colorImageFile'', JObj [])]"]
    buildTeams_checks_then_delegates
      [of "\<lparr>generator_manifestId = JStr ''m1'', generator_url = JStr ''https://a.b'',
            serviceworker_serviceworker = JStr ''sw1''\<rparr>"
          "\<lparr>process_env_apiUrl = ''https://api'',
            axios_post = PostOk (JObj [(''archive'', JStr ''https://x/y.zip'')]),
            JSON_parse = None\<rparr>"
          state
          "\<lparr>href = ''https://a.b'', options = None\<rparr>"
          "JObj []"]
    buildTeams_checks_then_delegates
      [of "\<lparr>generator_manifestId = JStr ''m1'', generator_url = JStr ''https://a.b'',
            serviceworker_serviceworker = JStr ''sw1''\<rparr>"
          "\<lparr>process_env_apiUrl = ''https://api'',
            axios_post = PostOk (JObj [(''archive'', JStr ''https://x/y.zip'')]),
            JSON_parse = Some (JObj [(''publisherName'', JStr ''Contoso''),
                                     (''shortDescription'', JStr ''s''),
                                     (''longDescription'', JStr ''l''),
                                     (''privacyUrl'', JStr ''https://a.b/p''),
                                     (''termsOfUseUrl'', JStr ''https://a.b/t''),
                                     (''colorImageFile'', JObj [])])\<rparr>"
          state
          "\<lparr>href = ''https://a.b'',
            options = Some [''{\"publisherName\":\"Contoso\",\"shortDescription\":\"s\",\"longDescription\":\"l\",\"privacyUrl\":\"https://a.b/p\",\"termsOfUseUrl\":\"https://a.b/t\",\"colorImageFile\":{}}'']\<rparr>"
          "JObj [(''publisherName'', JStr ''Contoso''),
                 (''shortDescription'', JStr ''s''),
                 (''longDescription'', JStr ''l''),
                 (''privacyUrl'', JStr ''https://a.b/p''),
                 (''termsOfUseUrl'', JStr ''https://a.b/t''),
                 (''colorImageFile'', JObj [])]"]
  by (simp add: action_defs teams_required_def platforms_defs)

subsection \<open>C7: one platform, and dirSuffix\<close>

text \<open>
  C7: for a platform other than the registry's value for \<open>all\<close>, the request that \<open>build\<close>
  sends carries the list of that one platform; and in every case, \<open>all\<close> included, its
  \<open>dirSuffix\<close> is the platform argument as it was given.
\<close>

theorem build_single_platform_dirSuffix:
  "\<exists>r. posted (build \<E> rootState st (Some ps)) = Some r
     \<and> (platform ps \<noteq> JStr platforms_all \<longrightarrow> get (body r) ''platforms'' = JArr [platform ps])
     \<and> get (body r) ''dirSuffix'' = platform ps"
  by (simp add: build_posted build_request_def platformsList_def)

theorem build_single_platform_dirSuffix_witness:
  "(\<exists>r. posted (build \<lparr>process_env_apiUrl = ''https://api'',
                        axios_post = PostOk (JObj [(''archive'', JStr ''https://x/y.zip'')]),
                        JSON_parse = None\<rparr>
                       \<lparr>generator_manifestId = JStr ''m1'', generator_url = JStr ''https://a.b'',
                        serviceworker_serviceworker = JStr ''sw1''\<rparr>
                       state
                       (Some \<lparr>href = ''https://a.b'', options = None,
                              platform = JStr ''android-twa''\<rparr>))
           = Some r
      \<and> get (body r) ''platforms'' = JArr [JStr ''android-twa'']
      \<and> get (body r) ''dirSuffix'' = JStr ''android-twa'')
   \<and> (\<exists>r. posted (build \<lparr>process_env_apiUrl = ''https://api'',
                        axios_post = PostOk (JObj [(''archive'', JStr ''https://x/y.zip'')]),
                        JSON_parse = None\<rparr>
                       \<lparr>generator_manifestId = JStr ''m1'', generator_url = JStr ''https://a.b'',
                        serviceworker_serviceworker = JStr ''sw1''\<rparr>
                       state
                       (Some \<lparr>href = ''https://a.b'', options = None, platform = JStr ''All''\<rparr>))
           = Some r
      \<and> get (body r) ''dirSuffix'' = JStr ''All'')"
  using
    build_single_platform_dirSuffix
      [of "\<lparr>process_env_apiUrl = ''https://api'',
            axios_post = PostOk (JObj [(''archive'', JStr ''https://x/y.zip'')]),
            JSON_parse = None\<rparr>"
          "\<lparr>generator_manifestId = JStr ''m1'', generator_url = JStr ''https://a.b'',
            serviceworker_serviceworker = JStr ''sw1''\<rparr>"
          state
          "\<lparr>href = ''https://a.b'', options = None, platform = JStr ''android-twa''\<rparr>"]
    build_single_platform_dirSuffix
      [of "\<lparr>process_env_apiUrl = ''https://api'',
            axios_post = PostOk (JObj [(''archive'', JStr ''https://x/y.zip'')]),
            JSON_parse = None\<rparr>"
          "\<lparr>generator_manifestId = JStr ''m1'', generator_url = JStr ''https://a.b'',
            serviceworker_serviceworker = JStr ''sw1''\<rparr>"
          state
          "\<lparr>href = ''https://a.b'', options = None, platform = JStr ''All''\<rparr>"]
  by (auto simp add: platforms_defs)

subsection \<open>C8: the message of a failed build\<close>

text \<open>
  C8 says that a failed \<open>build\<close> takes its message from the \<open>error\<close> field of the body,
  else from the body as text, else from the status text. Line 156 tests the body first
  and falls back to \<open>data || statusText\<close> only when the body is falsy, so the body is
  never taken: a service that answers with a plain text and no \<open>error\<close> field makes the
  action reject with \<open>undefined\<close>.
\<close>

theorem build_plain_text_error_is_lost:
  "build \<lparr>process_env_apiUrl = ''https://api'',
          axios_post = PostError (Some \<lparr>data = JStr ''upstream timed out'',
                                        statusText = ''Gateway Timeout''\<rparr>),
          JSON_parse = None\<rparr>
         \<lparr>generator_manifestId = JStr ''m1'', generator_url = JStr ''https://a.b'',
          serviceworker_serviceworker = JStr ''sw1''\<rparr>
         state
         (Some \<lparr>href = ''https://a.b'', options = None, platform = JStr ''web''\<rparr>)
     = \<lparr>settled = Rejected JUndefined, unhandled = None,
        posted = Some \<lparr>url = ''https://api/manifests/m1/build?ids=sw1&href=https://a.b\<newline>                '',
                        body = JObj [(''platforms'', JArr [JStr ''web'']),
                                     (''dirSuffix'', JStr ''web''),
                                     (''parameters'', JUndefined)]\<rparr>,
        dispatched = None, store = state\<rparr>"
  by (simp add: action_defs platforms_defs)

theorem build_plain_text_error_is_lost_witness:
  "settled (build \<lparr>process_env_apiUrl = ''https://api'',
                   axios_post = PostError (Some \<lparr>data = JStr ''upstream timed out'',
                                                 statusText = ''Gateway Timeout''\<rparr>),
                   JSON_parse = None\<rparr>
                  \<lparr>generator_manifestId = JStr ''m1'', generator_url = JStr ''https://a.b'',
                   serviceworker_serviceworker = JStr ''sw1''\<rparr>
                  state
                  (Some \<lparr>href = ''https://a.b'', options = None, platform = JStr ''web''\<rparr>))
     \<noteq> Rejected (JStr ''upstream timed out'')"
  using build_plain_text_error_is_lost by simp

subsection \<open>C9: a successful build and the state\<close>

text \<open>
  C9: when the service answers a \<open>build\<close> with a body, \<open>archiveLink\<close> becomes the
  \<open>archive\<close> of that body and no other field of the state changes.
\<close>

theorem build_success_archiveLink:
  "axios_post \<E> = PostOk result \<Longrightarrow> \<not> nullish result \<Longrightarrow>
   store (build \<E> rootState st (Some ps)) = st\<lparr>archiveLink := get result ''archive''\<rparr>
   \<and> appXLink (store (build \<E> rootState st (Some ps))) = appXLink st
   \<and> status (store (build \<E> rootState st (Some ps))) = status st
   \<and> downloadDisabled (store (build \<E> rootState st (Some ps))) = downloadDisabled st"
proof -
  assume ok: "axios_post \<E> = PostOk result" and body: "\<not> nullish result"
  then have written:
    "store (build \<E> rootState st (Some ps)) = UPDATE_ARCHIVELINK st (get result ''archive'')"
    by (simp add: build_def Let_def member_def)
  then show ?thesis
    by (simp add: UPDATE_ARCHIVELINK_def)
qed

theorem build_success_archiveLink_witness:
  "axios_post \<lparr>process_env_apiUrl = ''https://api'',
               axios_post = PostOk (JObj [(''archive'', JStr ''https://x/y.zip'')]),
               JSON_parse = None\<rparr>
     = PostOk (JObj [(''archive'', JStr ''https://x/y.zip'')])
   \<and> \<not> nullish (JObj [(''archive'', JStr ''https://x/y.zip'')])
   \<and> store (build \<lparr>process_env_apiUrl = ''https://api'',
                    axios_post = PostOk (JObj [(''archive'', JStr ''https://x/y.zip'')]),
                    JSON_parse = None\<rparr>
                   \<lparr>generator_manifestId = JStr ''m1'', generator_url = JStr ''https://a.b'',
                    serviceworker_serviceworker = JStr ''sw1''\<rparr>
                   \<lparr>status = Some True, archiveLink = JStr ''https://old/a.zip'',
                    appXLink = JStr ''https://old/b.appx'', downloadDisabled = True\<rparr>
                   (Some \<lparr>href = ''https://a.b'', options = None, platform = JStr ''web''\<rparr>))
     = \<lparr>status = Some True, archiveLink = JStr ''https://x/y.zip'',
        appXLink = JStr ''https://old/b.appx'', downloadDisabled = True\<rparr>"
  using build_success_archiveLink
    [of "\<lparr>process_env_apiUrl = ''https://api'',
          axios_post = PostOk (JObj [(''archive'', JStr ''https://x/y.zip'')]),
          JSON_parse = None\<rparr>"
        "JObj [(''archive'', JStr ''https://x/y.zip'')]"
        "\<lparr>generator_manifestId = JStr ''m1'', generator_url = JStr ''https://a.b'',
          serviceworker_serviceworker = JStr ''sw1''\<rparr>"
        "\<lparr>status = Some True, archiveLink = JStr ''https://old/a.zip'',
          appXLink = JStr ''https://old/b.appx'', downloadDisabled = True\<rparr>"
        "\<lparr>href = ''https://a.b'', options = None, platform = JStr ''web''\<rparr>"]
  by (simp add: nullish_def)

subsection \<open>C10: buildTeams and a text that is not JSON\<close>

text \<open>
  C10: when the manifest identifier is present and the first element of \<open>options\<close> is
  not JSON, \<open>JSON.parse\<close> throws out of the executor before \<open>resolve\<close> or \<open>reject\<close> is
  called. The promise of \<open>buildTeams\<close> is never settled: the action neither succeeds nor
  rejects with any reason, \<open>build\<close> is not dispatched, nothing is sent and the state is
  as it was.
\<close>

theorem buildTeams_invalid_json:
  "truthy (generator_manifestId rootState) \<Longrightarrow> options params = Some (s # ss) \<Longrightarrow>
   JSON_parse \<E> = None \<Longrightarrow>
   buildTeams \<E> rootState st params =
     \<lparr>settled = Pending, unhandled = Some SyntaxError, posted = None, dispatched = None,
      store = st\<rparr>"
  by (simp add: buildTeams_def decode_options_def)

theorem buildTeams_invalid_json_witness:
  "truthy (JStr ''m1'')
   \<and> buildTeams \<lparr>process_env_apiUrl = ''https://api'',
                 axios_post = PostOk (JObj [(''archive'', JStr ''https://x/y.zip'')]),
                 JSON_parse = None\<rparr>
                \<lparr>generator_manifestId = JStr ''m1'', generator_url = JStr ''https://a.b'',
                 serviceworker_serviceworker = JStr ''sw1''\<rparr>
                state
                \<lparr>href = ''https://a.b'', options = Some [''{publisherName: Contoso'']\<rparr>
     = \<lparr>settled = Pending, unhandled = Some SyntaxError, posted = None, dispatched = None,
        store = state\<rparr>"
  using buildTeams_invalid_json
    [of "\<lparr>generator_manifestId = JStr ''m1'', generator_url = JStr ''https://a.b'',
          serviceworker_serviceworker = JStr ''sw1''\<rparr>"
        "\<lparr>href = ''https://a.b'', options = Some [''{publisherName: Contoso'']\<rparr>"
        "''{publisherName: Contoso''" "[]"
        "\<lparr>process_env_apiUrl = ''https://api'',
          axios_post = PostOk (JObj [(''archive'', JStr ''https://x/y.zip'')]),
          JSON_parse = None\<rparr>"
        state]
  by simp

end
